theory Spec2Isabelle
  imports Complex_Main
begin

section \<open>SnapPlanner: the straight-line planner of prpy/planning/snap.py\<close>

text \<open>
  The planner orchestrates calls into an external engine (OpenRAVE) and into helpers of
  prpy that snap.py imports. The embedding keeps the planner's own control flow and
  takes every answer of the engine as a field of the record \<open>world\<close>: what the
  joint-limit validator, numpy.allclose, the collision checker and the IK solver say
  about a configuration. A configuration is a value of the type variable \<open>'q\<close>, a goal
  pose a value of \<open>'p\<close>. Everything the planner mutates (the robot's active DOF values,
  the collision checker's options) is a field of \<open>robot_state\<close>, together with the
  list of calls made so far, in the order they were made.
\<close>

subsection \<open>Data of the external engine\<close>

text \<open>openravepy.CollisionOptions: the option flags of a collision checker.\<close>

datatype CollisionOptions =
    Distance | UseTolerance | Contacts | RayAnyHit | ActiveDOFs
  | AllLinkCollisions | AllGeometryContacts

text \<open>openravepy.IkFilterOptions: the two filters snap.py passes to the IK solver.\<close>

datatype IkFilterOptions = CheckEnvCollisions | IgnoreSelfCollisions

text \<open>openravepy.CollisionReport: the two colliding links, by name.\<close>

type_synonym CollisionReport = "string \<times> string"

text \<open>prpy.planning.base.Tags: the trajectory tags snap.py sets.\<close>

datatype Tags = SMOOTH | DETERMINISTIC_TRAJECTORY | DETERMINISTIC_ENDPOINT

text \<open>
  The exceptions a call can raise. Each PlanningError carries its \<open>deterministic\<close>
  flag; JointLimitError also carries the configuration that was refused, the two
  collision errors the report they were built from (\<open>FromReport\<close>).
  \<open>openrave_exception\<close> is the engine's own error (an index out of range in
  \<open>traj.Insert\<close>); it is no PlanningError and has no flag.
\<close>

datatype 'q error =
    JointLimitError 'q bool
  | CollisionPlanningError CollisionReport bool
  | SelfCollisionPlanningError CollisionReport bool
  | PlanningError string bool
  | openrave_exception string

fun deterministic :: "'q error \<Rightarrow> bool option" where
  "deterministic (JointLimitError q d) = Some d"
| "deterministic (CollisionPlanningError r d) = Some d"
| "deterministic (SelfCollisionPlanningError r d) = Some d"
| "deterministic (PlanningError m d) = Some d"
| "deterministic (openrave_exception m) = None"

text \<open>The calls into the engine and the helpers, as they are recorded.\<close>

datatype ('q, 'p) event =
    EvCheckJointLimits 'q
  | EvInsert nat 'q
  | EvSetCollisionOptions "CollisionOptions set"
  | EvSetActiveDOFValues 'q
  | EvVerifyCollisionFree "CollisionOptions set" 'q
  | EvCheckCollision "CollisionOptions set" 'q
  | EvCheckSelfCollision "CollisionOptions set" 'q
  | EvFindIKSolution 'p IkFilterOptions
  | EvFindIKSolutions 'p IkFilterOptions

text \<open>
  A collision check of either kind: what \<open>VerifyCollisionFree\<close>,
  \<open>env.CheckCollision\<close> and \<open>robot.CheckSelfCollision\<close> record.
\<close>

fun is_collision_check :: "('q, 'p) event \<Rightarrow> bool" where
  "is_collision_check (EvVerifyCollisionFree opts q) = True"
| "is_collision_check (EvCheckCollision opts q) = True"
| "is_collision_check (EvCheckSelfCollision opts q) = True"
| "is_collision_check _ = False"

text \<open>
  The mutable state of one planning call: the (cloned) robot's active DOF values, the
  options of the environment's collision checker, and the calls made so far.
\<close>

record ('q, 'p) robot_state =
  dof_values :: 'q
  collision_options :: "CollisionOptions set"
  calls :: "('q, 'p) event list"

text \<open>
  What the engine answers. \<open>within_limits q\<close>: the configuration respects the joint
  limits. \<open>allclose a b\<close>: numpy.allclose. \<open>env_collision opts q\<close> and
  \<open>self_collision opts q\<close>: the report of \<open>env.CheckCollision(robot)\<close> and of
  \<open>robot.CheckSelfCollision()\<close> with the robot at \<open>q\<close> and the checker's options
  \<open>opts\<close>, \<open>None\<close> when the check returns False. \<open>ik_solution\<close> and
  \<open>ik_solutions\<close>: the manipulator's FindIKSolution and FindIKSolutions at the
  robot's current configuration. \<open>sample_line\<close>: the sampled (t, q) pairs along a
  trajectory of more than one waypoint.
\<close>

record ('q, 'p) world =
  within_limits :: "'q \<Rightarrow> bool"
  allclose :: "'q \<Rightarrow> 'q \<Rightarrow> bool"
  env_collision :: "CollisionOptions set \<Rightarrow> 'q \<Rightarrow> CollisionReport option"
  self_collision :: "CollisionOptions set \<Rightarrow> 'q \<Rightarrow> CollisionReport option"
  ik_solution :: "'q \<Rightarrow> 'p \<Rightarrow> IkFilterOptions \<Rightarrow> 'q option"
  ik_solutions :: "'q \<Rightarrow> 'p \<Rightarrow> IkFilterOptions \<Rightarrow> 'q list"
  sample_line :: "'q list \<Rightarrow> (real \<times> 'q) list"

text \<open>A trajectory: its waypoints in order, and its tags.\<close>

record 'q Trajectory =
  waypoints :: "'q list"
  tags :: "Tags \<rightharpoonup> bool"

text \<open>
  The planner object: \<open>self.robot_collision_checker\<close>, the constructor's argument.
  Instantiated on the robot, its \<open>VerifyCollisionFree\<close> raises or returns; the field
  gives the exception raised with the checker's options \<open>opts\<close> and the robot at
  \<open>q\<close>, \<open>None\<close> when it returns.
\<close>

record ('q, 'p) SnapPlanner =
  robot_collision_checker ::
    "('q, 'p) world \<Rightarrow> CollisionOptions set \<Rightarrow> 'q \<Rightarrow> 'q error option"

subsection \<open>Calls into the engine\<close>

definition record_call ::
  "('q, 'p) event \<Rightarrow> ('q, 'p) robot_state \<Rightarrow> ('q, 'p) robot_state" where
  "record_call ev s = s\<lparr>calls := calls s @ [ev]\<rparr>"

definition SetActiveDOFValues ::
  "'q \<Rightarrow> ('q, 'p) robot_state \<Rightarrow> ('q, 'p) robot_state" where
  "SetActiveDOFValues q s = record_call (EvSetActiveDOFValues q) (s\<lparr>dof_values := q\<rparr>)"

definition SetCollisionOptions ::
  "CollisionOptions set \<Rightarrow> ('q, 'p) robot_state \<Rightarrow> ('q, 'p) robot_state" where
  "SetCollisionOptions opts s =
     record_call (EvSetCollisionOptions opts) (s\<lparr>collision_options := opts\<rparr>)"

text \<open>\<open>self.env.CheckCollision(robot, report=report)\<close>\<close>

definition CheckCollision ::
  "('q, 'p) world \<Rightarrow> ('q, 'p) robot_state \<Rightarrow> CollisionReport option \<times> ('q, 'p) robot_state" where
  "CheckCollision w s =
     (env_collision w (collision_options s) (dof_values s),
      record_call (EvCheckCollision (collision_options s) (dof_values s)) s)"

text \<open>\<open>robot.CheckSelfCollision(report=report)\<close>\<close>

definition CheckSelfCollision ::
  "('q, 'p) world \<Rightarrow> ('q, 'p) robot_state \<Rightarrow> CollisionReport option \<times> ('q, 'p) robot_state" where
  "CheckSelfCollision w s =
     (self_collision w (collision_options s) (dof_values s),
      record_call (EvCheckSelfCollision (collision_options s) (dof_values s)) s)"

text \<open>\<open>manipulator.FindIKSolution(ik_param, filter)\<close>: a solution or None.\<close>

definition FindIKSolution ::
  "('q, 'p) world \<Rightarrow> 'p \<Rightarrow> IkFilterOptions \<Rightarrow> ('q, 'p) robot_state
     \<Rightarrow> 'q option \<times> ('q, 'p) robot_state" where
  "FindIKSolution w pose flt s =
     (ik_solution w (dof_values s) pose flt, record_call (EvFindIKSolution pose flt) s)"

text \<open>\<open>manipulator.FindIKSolutions(ik_param, filter)\<close>: all solutions, in order.\<close>

definition FindIKSolutions ::
  "('q, 'p) world \<Rightarrow> 'p \<Rightarrow> IkFilterOptions \<Rightarrow> ('q, 'p) robot_state
     \<Rightarrow> 'q list \<times> ('q, 'p) robot_state" where
  "FindIKSolutions w pose flt s =
     (ik_solutions w (dof_values s) pose flt, record_call (EvFindIKSolutions pose flt) s)"

text \<open>\<open>openravepy.RaveCreateTrajectory(self.env, '')\<close>: an empty trajectory.\<close>

definition RaveCreateTrajectory :: "'q Trajectory" where
  "RaveCreateTrajectory = \<lparr>waypoints = [], tags = Map.empty\<rparr>"

text \<open>\<open>traj.Init(cspec)\<close>: the trajectory has no waypoint.\<close>

definition Init :: "'q Trajectory \<Rightarrow> 'q Trajectory" where
  "Init traj = traj\<lparr>waypoints := []\<rparr>"

text \<open>
  \<open>traj.Insert(index, waypoint)\<close>: the waypoint is put before position \<open>index\<close>;
  the engine raises when \<open>index\<close> is beyond the number of waypoints. The waypoint is
  the configuration itself: \<open>cspec.InsertJointValues\<close> writes the joint values of the
  active DOFs into a zero vector of the active configuration specification.
\<close>

definition Insert ::
  "nat \<Rightarrow> 'q \<Rightarrow> 'q Trajectory \<Rightarrow> ('q, 'p) robot_state
     \<Rightarrow> ('q error + 'q Trajectory) \<times> ('q, 'p) robot_state" where
  "Insert i wp traj s =
     (if i \<le> length (waypoints traj)
      then (Inr (traj\<lparr>waypoints := take i (waypoints traj) @ [wp] @ drop i (waypoints traj)\<rparr>),
            record_call (EvInsert i wp) s)
      else (Inl (openrave_exception ''Insert: index out of range''), s))"

text \<open>
  \<open>with CollisionOptionsStateSaver(checker, options): body\<close>. Entering saves the
  checker's options and sets the new ones; leaving sets the saved options again,
  whether the body returned or raised.
\<close>

definition CollisionOptionsStateSaver ::
  "CollisionOptions set
     \<Rightarrow> (('q, 'p) robot_state \<Rightarrow> ('q error + 'a) \<times> ('q, 'p) robot_state)
     \<Rightarrow> ('q, 'p) robot_state \<Rightarrow> ('q error + 'a) \<times> ('q, 'p) robot_state" where
  "CollisionOptionsStateSaver opts body s =
     (let oldoptions = collision_options s;
          (r, s') = body (SetCollisionOptions opts s)
      in (r, SetCollisionOptions oldoptions s'))"

subsection \<open>Helpers of prpy that snap.py imports\<close>

text \<open>
  Modelled from the spec: \<open>prpy.util.CheckJointLimits\<close> is not among the sources.
  "Joint-limit validator: given a configuration, raises on violation." The error is a
  JointLimitError with the \<open>deterministic\<close> flag the caller passes.
\<close>

definition CheckJointLimits ::
  "('q, 'p) world \<Rightarrow> 'q \<Rightarrow> bool \<Rightarrow> ('q, 'p) robot_state
     \<Rightarrow> ('q error + unit) \<times> ('q, 'p) robot_state" where
  "CheckJointLimits w q det s =
     (if within_limits w q then Inr () else Inl (JointLimitError q det),
      record_call (EvCheckJointLimits q) s)"

text \<open>
  Modelled from the spec: \<open>prpy.util.GetLinearCollisionCheckPts\<close> (with the Van der
  Corput sample generator) is not among the sources. "Sample points along that line
  (via a numeric sequence generator)"; snap.py's own comment adds that "if the
  trajectory only has one waypoint then only the start configuration will be
  collisioned checked". The samples along a longer trajectory are the engine's
  (\<open>sample_line\<close>); they are finitely many.
\<close>

definition GetLinearCollisionCheckPts ::
  "('q, 'p) world \<Rightarrow> 'q Trajectory \<Rightarrow> (real \<times> 'q) list" where
  "GetLinearCollisionCheckPts w traj =
     (case waypoints traj of
        [q] \<Rightarrow> [(0, q)]
      | _ \<Rightarrow> sample_line w (waypoints traj))"

text \<open>
  Modelled from the spec: \<open>prpy.util.SetTrajectoryTags\<close> is not among the sources.
  "tag the resulting trajectory": with \<open>append=True\<close> the new tags are added to the ones
  the trajectory has, otherwise they replace them.
\<close>

definition SetTrajectoryTags ::
  "'q Trajectory \<Rightarrow> (Tags \<times> bool) list \<Rightarrow> bool \<Rightarrow> 'q Trajectory" where
  "SetTrajectoryTags traj new_tags append_tags =
     (if append_tags then traj\<lparr>tags := tags traj ++ map_of new_tags\<rparr>
      else traj\<lparr>tags := map_of new_tags\<rparr>)"

text \<open>
  Modelled from the spec: \<open>prpy.collision.SimpleRobotCollisionChecker\<close>, the default
  of \<open>robot_collision_checker\<close>, is not among the sources. "For each sampled
  configuration, apply it and query collision; on the first collision, abort and raise
  a typed, deterministic failure carrying the collision report", the failure being
  "Collision|SelfCollision". The environment is asked before the robot itself, as in
  the probe of PlanToEndEffectorPose.
\<close>

definition SimpleRobotCollisionChecker ::
  "('q, 'p) world \<Rightarrow> CollisionOptions set \<Rightarrow> 'q \<Rightarrow> 'q error option" where
  "SimpleRobotCollisionChecker w opts q =
     (case env_collision w opts q of
        Some report \<Rightarrow> Some (CollisionPlanningError report True)
      | None \<Rightarrow>
          (case self_collision w opts q of
             Some report \<Rightarrow> Some (SelfCollisionPlanningError report True)
           | None \<Rightarrow> None))"

text \<open>\<open>robot_checker.VerifyCollisionFree()\<close>: raises on collision.\<close>

definition VerifyCollisionFree ::
  "('q, 'p) SnapPlanner \<Rightarrow> ('q, 'p) world \<Rightarrow> ('q, 'p) robot_state
     \<Rightarrow> ('q error + unit) \<times> ('q, 'p) robot_state" where
  "VerifyCollisionFree self w s =
     (case robot_collision_checker self w (collision_options s) (dof_values s) of
        Some e \<Rightarrow> Inl e
      | None \<Rightarrow> Inr (),
      record_call (EvVerifyCollisionFree (collision_options s) (dof_values s)) s)"

subsection \<open>SnapPlanner\<close>

text \<open>
  The loop of \<open>_Snap\<close>: \<open>for t, q in checks: robot.SetActiveDOFValues(q);
  robot_checker.VerifyCollisionFree()\<close>. The first exception ends it.
\<close>

fun check_loop ::
  "('q, 'p) SnapPlanner \<Rightarrow> ('q, 'p) world \<Rightarrow> (real \<times> 'q) list \<Rightarrow> ('q, 'p) robot_state
     \<Rightarrow> ('q error + unit) \<times> ('q, 'p) robot_state" where
  "check_loop self w [] s = (Inr (), s)"
| "check_loop self w ((t, q) # checks) s =
     (case VerifyCollisionFree self w (SetActiveDOFValues q s) of
        (Inl e, s') \<Rightarrow> (Inl e, s')
      | (Inr u, s') \<Rightarrow> check_loop self w checks s')"

text \<open>
  \<open>SnapPlanner._Snap(self, robot, goal)\<close>, statement by statement. The result is the
  trajectory or the exception raised, with the state the call leaves behind.
\<close>

definition Snap ::
  "('q, 'p) SnapPlanner \<Rightarrow> ('q, 'p) world \<Rightarrow> 'q \<Rightarrow> ('q, 'p) robot_state
     \<Rightarrow> ('q error + 'q Trajectory) \<times> ('q, 'p) robot_state" where
  "Snap self w goal s0 =
     (let traj = RaveCreateTrajectory;
          start = dof_values s0
      in case CheckJointLimits w start True s0 of
           (Inl e, s1) \<Rightarrow> (Inl e, s1)
         | (Inr u, s1) \<Rightarrow>
       (case Insert 0 start (Init traj) s1 of
           (Inl e, s2) \<Rightarrow> (Inl e, s2)
         | (Inr traj1, s2) \<Rightarrow>
       (case CheckJointLimits w goal True s2 of
           (Inl e, s3) \<Rightarrow> (Inl e, s3)
         | (Inr u, s3) \<Rightarrow>
       (case (if \<not> allclose w start goal then Insert 1 goal traj1 s3
              else (Inr traj1, s3)) of
           (Inl e, s4) \<Rightarrow> (Inl e, s4)
         | (Inr traj2, s4) \<Rightarrow>
       (let checks = GetLinearCollisionCheckPts w traj2
        in case CollisionOptionsStateSaver {ActiveDOFs} (check_loop self w checks) s4 of
           (Inl e, s5) \<Rightarrow> (Inl e, s5)
         | (Inr u, s5) \<Rightarrow>
             (Inr (SetTrajectoryTags traj2
                     [(SMOOTH, True),
                      (DETERMINISTIC_TRAJECTORY, True),
                      (DETERMINISTIC_ENDPOINT, True)] True), s5))))))"

text \<open>
  \<open>SnapPlanner.PlanToConfiguration(self, robot, goal)\<close>. The decorator
  ClonedPlanningMethod (prpy.planning.base, not among the sources) runs the method on
  a clone of the robot and its environment: the state here is the clone's.
\<close>

definition PlanToConfiguration ::
  "('q, 'p) SnapPlanner \<Rightarrow> ('q, 'p) world \<Rightarrow> 'q \<Rightarrow> ('q, 'p) robot_state
     \<Rightarrow> ('q error + 'q Trajectory) \<times> ('q, 'p) robot_state" where
  "PlanToConfiguration self w goal s = Snap self w goal s"

text \<open>
  The probe of PlanToEndEffectorPose: \<open>for q in ik_solutions\<close>, set the robot to
  \<open>q\<close>, ask the environment, and only if it reports no collision ask the robot.
\<close>

fun probe_ik_solutions ::
  "('q, 'p) world \<Rightarrow> 'q list \<Rightarrow> ('q, 'p) robot_state
     \<Rightarrow> ('q error + unit) \<times> ('q, 'p) robot_state" where
  "probe_ik_solutions w [] s = (Inr (), s)"
| "probe_ik_solutions w (q # qs) s =
     (case CheckCollision w (SetActiveDOFValues q s) of
        (Some report, s1) \<Rightarrow> (Inl (CollisionPlanningError report True), s1)
      | (None, s1) \<Rightarrow>
          (case CheckSelfCollision w s1 of
             (Some report, s2) \<Rightarrow> (Inl (SelfCollisionPlanningError report True), s2)
           | (None, s2) \<Rightarrow> probe_ik_solutions w qs s2))"

text \<open>\<open>SnapPlanner.PlanToEndEffectorPose(self, robot, goal_pose)\<close>\<close>

definition PlanToEndEffectorPose ::
  "('q, 'p) SnapPlanner \<Rightarrow> ('q, 'p) world \<Rightarrow> 'p \<Rightarrow> ('q, 'p) robot_state
     \<Rightarrow> ('q error + 'q Trajectory) \<times> ('q, 'p) robot_state" where
  "PlanToEndEffectorPose self w goal_pose s =
     (case FindIKSolution w goal_pose CheckEnvCollisions s of
        (None, s1) \<Rightarrow>
          (case FindIKSolutions w goal_pose IgnoreSelfCollisions s1 of
             (sols, s2) \<Rightarrow>
               (case probe_ik_solutions w sols s2 of
                  (Inl e, s3) \<Rightarrow> (Inl e, s3)
                | (Inr u, s3) \<Rightarrow>
                    (Inl (PlanningError ''There is no IK solution at the goal pose.'' True),
                     s3)))
      | (Some sol, s1) \<Rightarrow> Snap self w sol s1)"

text \<open>The planner as snap.py constructs it by default.\<close>

definition default_planner :: "('q, 'p) SnapPlanner" where
  "default_planner = \<lparr>robot_collision_checker = SimpleRobotCollisionChecker\<rparr>"

subsection \<open>A scene to run the planner on\<close>

text \<open>
  A robot with one joint, its value an integer, limits -10 and 10. A table is hit at
  values 5 and 6, the robot hits itself at 6 and beyond 7. numpy.allclose is equality;
  a line is sampled at its two ends and its midpoint. The poses are named: the pose
  \<open>''shelf''\<close> is reached at 2, \<open>''table''\<close> only at 5 and 6 (in collision),
  \<open>''back''\<close> only at 8 and 9 (in self-collision), \<open>''far''\<close> nowhere.
\<close>

definition scene :: "(int, string) world" where
  "scene = \<lparr>
     within_limits = (\<lambda>q. - 10 \<le> q \<and> q \<le> 10),
     allclose = (\<lambda>a b. a = b),
     env_collision = (\<lambda>opts q. if q = 5 \<or> q = 6 then Some (''arm'', ''table'') else None),
     self_collision = (\<lambda>opts q. if q = 6 \<or> 7 < q then Some (''arm'', ''torso'') else None),
     ik_solution = (\<lambda>cur pose flt. if pose = ''shelf'' then Some 2 else None),
     ik_solutions = (\<lambda>cur pose flt.
        if pose = ''shelf'' then [2]
        else if pose = ''table'' then [6, 5]
        else if pose = ''back'' then [8, 9]
        else []),
     sample_line = (\<lambda>qs. case qs of
        [a, b] \<Rightarrow> [(0, a), (1, b), (1 / 2, (a + b) div 2)]
      | _ \<Rightarrow> [])\<rparr>"

definition robot_at :: "int \<Rightarrow> (int, string) robot_state" where
  "robot_at q = \<lparr>dof_values = q, collision_options = {Contacts}, calls = []\<rparr>"

text \<open>
  A planner constructed with a collision checker of its own,
  \<open>SnapPlanner(robot_collision_checker=...)\<close>: its VerifyCollisionFree asks the
  environment only and raises \<open>CollisionPlanningError.FromReport(report,
  deterministic=False)\<close>.
\<close>

definition env_only_checker ::
  "('q, 'p) world \<Rightarrow> CollisionOptions set \<Rightarrow> 'q \<Rightarrow> 'q error option" where
  "env_only_checker w opts q =
     (case env_collision w opts q of
        Some report \<Rightarrow> Some (CollisionPlanningError report False)
      | None \<Rightarrow> None)"

definition env_only_planner :: "('q, 'p) SnapPlanner" where
  "env_only_planner = \<lparr>robot_collision_checker = env_only_checker\<rparr>"

section \<open>Properties\<close>

subsection \<open>The three ways through \<open>_Snap\<close>\<close>

lemma Snap_start_refused:
  "\<not> within_limits w (dof_values s) \<Longrightarrow>
   Snap self w goal s =
     (Inl (JointLimitError (dof_values s) True),
      s\<lparr>calls := calls s @ [EvCheckJointLimits (dof_values s)]\<rparr>)"
  by (simp add: Snap_def CheckJointLimits_def record_call_def Let_def)

lemma Snap_goal_refused:
  "within_limits w (dof_values s) \<Longrightarrow> \<not> within_limits w goal \<Longrightarrow>
   Snap self w goal s =
     (Inl (JointLimitError goal True),
      s\<lparr>calls := calls s @ [EvCheckJointLimits (dof_values s), EvInsert 0 (dof_values s),
                             EvCheckJointLimits goal]\<rparr>)"
  by (simp add: Snap_def CheckJointLimits_def record_call_def Insert_def Init_def
      RaveCreateTrajectory_def Let_def)

lemma Snap_checked:
  "within_limits w (dof_values s) \<Longrightarrow> within_limits w goal \<Longrightarrow>
   Snap self w goal s =
     (let start = dof_values s;
          wps = (if allclose w start goal then [start] else [start, goal]);
          traj2 = \<lparr>waypoints = wps, tags = Map.empty\<rparr>;
          s4 = s\<lparr>calls := calls s @ [EvCheckJointLimits start, EvInsert 0 start,
                                     EvCheckJointLimits goal]
                        @ (if allclose w start goal then [] else [EvInsert 1 goal])\<rparr>
      in case CollisionOptionsStateSaver {ActiveDOFs}
                (check_loop self w (GetLinearCollisionCheckPts w traj2)) s4 of
           (Inl e, s5) \<Rightarrow> (Inl e, s5)
         | (Inr u, s5) \<Rightarrow>
             (Inr (traj2\<lparr>tags := map_of [(SMOOTH, True), (DETERMINISTIC_TRAJECTORY, True),
                                          (DETERMINISTIC_ENDPOINT, True)]\<rparr>), s5))"
  by (simp add: Snap_def CheckJointLimits_def record_call_def Insert_def Init_def
      RaveCreateTrajectory_def SetTrajectoryTags_def Let_def split: prod.splits sum.splits)

lemma check_loop_options:
  "collision_options (snd (check_loop self w checks s)) = collision_options s"
  by (induction self w checks s rule: check_loop.induct)
     (auto simp: VerifyCollisionFree_def SetActiveDOFValues_def record_call_def
           split: option.splits)

lemma check_loop_calls:
  "\<exists>evs. calls (snd (check_loop self w checks s)) = calls s @ evs \<and>
     (\<forall>ev\<in>set evs. (\<exists>q. ev = EvSetActiveDOFValues q) \<or>
                     (\<exists>q. ev = EvVerifyCollisionFree (collision_options s) q))"
proof (induction self w checks s rule: check_loop.induct)
  case (1 self w s)
  then show ?case by simp
next
  case (2 self w t q checks s)
  show ?case
  proof (cases "robot_collision_checker self w (collision_options s) q")
    case None
    let ?s' = "record_call (EvVerifyCollisionFree (collision_options s) q) (SetActiveDOFValues q s)"
    have step: "VerifyCollisionFree self w (SetActiveDOFValues q s) = (Inr (), ?s')"
      using None by (simp add: VerifyCollisionFree_def SetActiveDOFValues_def record_call_def)
    from "2.IH"[OF step[symmetric] refl] obtain evs where
      evs: "calls (snd (check_loop self w checks ?s')) = calls ?s' @ evs"
        "\<forall>ev\<in>set evs. (\<exists>q. ev = EvSetActiveDOFValues q) \<or>
                     (\<exists>q. ev = EvVerifyCollisionFree (collision_options ?s') q)"
      by blast
    have opts: "collision_options ?s' = collision_options s"
      by (simp add: SetActiveDOFValues_def record_call_def)
    have c: "calls ?s' = calls s @ [EvSetActiveDOFValues q, EvVerifyCollisionFree (collision_options s) q]"
      by (simp add: SetActiveDOFValues_def record_call_def)
    show ?thesis
      apply (rule exI[of _ "[EvSetActiveDOFValues q, EvVerifyCollisionFree (collision_options s) q] @ evs"])
      using evs step opts c by auto
  next
    case (Some e)
    then show ?thesis
      apply (intro exI[of _ "[EvSetActiveDOFValues q, EvVerifyCollisionFree (collision_options s) q]"])
      by (simp add: VerifyCollisionFree_def SetActiveDOFValues_def record_call_def)
  qed
qed


lemma saver_fst:
  "fst (CollisionOptionsStateSaver opts body s) = fst (body (SetCollisionOptions opts s))"
  by (simp add: CollisionOptionsStateSaver_def Let_def split: prod.splits)

lemma saver_snd:
  "snd (CollisionOptionsStateSaver opts body s) =
     SetCollisionOptions (collision_options s) (snd (body (SetCollisionOptions opts s)))"
  by (simp add: CollisionOptionsStateSaver_def Let_def split: prod.splits)

lemma check_loop_fst_cong:
  "dof_values s1 = dof_values s2 \<Longrightarrow> collision_options s1 = collision_options s2 \<Longrightarrow>
   fst (check_loop self w checks s1) = fst (check_loop self w checks s2)"
proof (induction checks arbitrary: s1 s2)
  case Nil
  then show ?case by simp
next
  case (Cons c checks)
  obtain t q where c: "c = (t, q)" by (cases c)
  show ?case
  proof (cases "robot_collision_checker self w (collision_options s2) q")
    case None
    then show ?thesis
      using Cons.prems c
      by (auto simp: VerifyCollisionFree_def SetActiveDOFValues_def record_call_def
               intro!: Cons.IH)
  next
    case (Some e)
    then show ?thesis
      using Cons.prems c
      by (simp add: VerifyCollisionFree_def SetActiveDOFValues_def record_call_def)
  qed
qed


lemma case_result_fst:
  "fst (case p of (Inl e, s) \<Rightarrow> (Inl e, s) | (Inr u, s) \<Rightarrow> (Inr x, s)) =
     (case fst p of Inl e \<Rightarrow> Inl e | Inr u \<Rightarrow> Inr x)"
  by (cases p) (simp split: sum.splits)

lemma case_result_snd:
  "snd (case p of (Inl e, s) \<Rightarrow> (Inl e, s) | (Inr u, s) \<Rightarrow> (Inr x, s)) = snd p"
  by (cases p) (simp split: sum.splits)

lemma Snap_checked_fst:
  assumes "within_limits w (dof_values s)" and "within_limits w goal"
  shows "fst (Snap self w goal s) =
     (case fst (check_loop self w
                 (GetLinearCollisionCheckPts w
                    \<lparr>waypoints = (if allclose w (dof_values s) goal then [dof_values s]
                                  else [dof_values s, goal]),
                     tags = Map.empty\<rparr>)
                 (SetCollisionOptions {ActiveDOFs}
                    (s\<lparr>calls := calls s @ [EvCheckJointLimits (dof_values s),
                                            EvInsert 0 (dof_values s), EvCheckJointLimits goal]
                          @ (if allclose w (dof_values s) goal then [] else [EvInsert 1 goal])\<rparr>))) of
        Inl e \<Rightarrow> Inl e
      | Inr u \<Rightarrow>
          Inr \<lparr>waypoints = (if allclose w (dof_values s) goal then [dof_values s]
                            else [dof_values s, goal]),
               tags = map_of [(SMOOTH, True), (DETERMINISTIC_TRAJECTORY, True),
                              (DETERMINISTIC_ENDPOINT, True)]\<rparr>)"
  unfolding Snap_checked[OF assms] Let_def case_result_fst saver_fst
  by (simp split: sum.splits)

lemma Snap_checked_snd:
  assumes "within_limits w (dof_values s)" and "within_limits w goal"
  shows "snd (Snap self w goal s) =
     SetCollisionOptions (collision_options s)
       (snd (check_loop self w
               (GetLinearCollisionCheckPts w
                  \<lparr>waypoints = (if allclose w (dof_values s) goal then [dof_values s]
                                else [dof_values s, goal]),
                   tags = Map.empty\<rparr>)
               (SetCollisionOptions {ActiveDOFs}
                  (s\<lparr>calls := calls s @ [EvCheckJointLimits (dof_values s),
                                          EvInsert 0 (dof_values s), EvCheckJointLimits goal]
                        @ (if allclose w (dof_values s) goal then [] else [EvInsert 1 goal])\<rparr>))))"
  unfolding Snap_checked[OF assms] Let_def case_result_snd saver_snd
  by simp

lemma Snap_fst_cong:
  assumes "dof_values s1 = dof_values s2" and "collision_options s1 = collision_options s2"
  shows "fst (Snap self w goal s1) = fst (Snap self w goal s2)"
proof (cases "within_limits w (dof_values s2) \<and> within_limits w goal")
  case True
  have loop: "\<And>checks c1 c2.
     fst (check_loop self w checks (SetCollisionOptions {ActiveDOFs} (s1\<lparr>calls := c1\<rparr>)))
   = fst (check_loop self w checks (SetCollisionOptions {ActiveDOFs} (s2\<lparr>calls := c2\<rparr>)))"
    by (rule check_loop_fst_cong) (simp_all add: SetCollisionOptions_def record_call_def assms)
  from True have l1: "within_limits w (dof_values s1)" "within_limits w (dof_values s2)"
    "within_limits w goal"
    using assms(1) by simp_all
  let ?wps = "if allclose w (dof_values s2) goal then [dof_values s2]
              else [dof_values s2, goal]"
  let ?evs = "[EvCheckJointLimits (dof_values s2), EvInsert 0 (dof_values s2),
               EvCheckJointLimits goal]
              @ (if allclose w (dof_values s2) goal then [] else [EvInsert 1 goal])"
  have "fst (check_loop self w
               (GetLinearCollisionCheckPts w \<lparr>waypoints = ?wps, tags = Map.empty\<rparr>)
               (SetCollisionOptions {ActiveDOFs} (s1\<lparr>calls := calls s1 @ ?evs\<rparr>)))
      = fst (check_loop self w
               (GetLinearCollisionCheckPts w \<lparr>waypoints = ?wps, tags = Map.empty\<rparr>)
               (SetCollisionOptions {ActiveDOFs} (s2\<lparr>calls := calls s2 @ ?evs\<rparr>)))"
    by (rule loop)
  then show ?thesis
    unfolding Snap_checked_fst[OF l1(1) l1(3)] Snap_checked_fst[OF l1(2) l1(3)] assms(1)
    by simp
next
  case False
  then show ?thesis
    using assms(1)
    by (cases "within_limits w (dof_values s2)")
       (simp_all add: Snap_start_refused Snap_goal_refused)
qed

subsection \<open>The probe and the check loop\<close>

lemma probe_fst_cong:
  "dof_values s1 = dof_values s2 \<Longrightarrow> collision_options s1 = collision_options s2 \<Longrightarrow>
   fst (probe_ik_solutions w qs s1) = fst (probe_ik_solutions w qs s2)"
proof (induction qs arbitrary: s1 s2)
  case Nil
  then show ?case by simp
next
  case (Cons q qs)
  have "fst (probe_ik_solutions w qs
          (record_call (EvCheckSelfCollision (collision_options s1) q)
            (record_call (EvCheckCollision (collision_options s1) q) (SetActiveDOFValues q s1))))
      = fst (probe_ik_solutions w qs
          (record_call (EvCheckSelfCollision (collision_options s2) q)
            (record_call (EvCheckCollision (collision_options s2) q) (SetActiveDOFValues q s2))))"
    by (rule Cons.IH) (simp_all add: SetActiveDOFValues_def record_call_def Cons.prems)
  then show ?case
    using Cons.prems
    by (simp add: CheckCollision_def CheckSelfCollision_def SetActiveDOFValues_def
        record_call_def split: option.splits)
qed

lemma probe_options:
  "collision_options (snd (probe_ik_solutions w qs s)) = collision_options s"
  by (induction w qs s rule: probe_ik_solutions.induct)
     (auto simp: CheckCollision_def CheckSelfCollision_def SetActiveDOFValues_def
        record_call_def split: option.splits)

lemma probe_clear:
  "\<forall>p\<in>set pre. env_collision w (collision_options s) p = None \<and>
                 self_collision w (collision_options s) p = None \<Longrightarrow>
   probe_ik_solutions w (pre @ qs) s =
     probe_ik_solutions w qs
       (s\<lparr>dof_values := (if pre = [] then dof_values s else last pre),
          calls := calls s @ concat (map (\<lambda>p. [EvSetActiveDOFValues p,
                     EvCheckCollision (collision_options s) p,
                     EvCheckSelfCollision (collision_options s) p]) pre)\<rparr>)"
proof (induction pre arbitrary: s)
  case Nil
  then show ?case by simp
next
  case (Cons p pre)
  let ?s' = "record_call (EvCheckSelfCollision (collision_options s) p)
            (record_call (EvCheckCollision (collision_options s) p) (SetActiveDOFValues p s))"
  have o: "collision_options ?s' = collision_options s"
    by (simp add: SetActiveDOFValues_def record_call_def)
  have step: "probe_ik_solutions w ((p # pre) @ qs) s = probe_ik_solutions w (pre @ qs) ?s'"
    using Cons.prems
    by (simp add: CheckCollision_def CheckSelfCollision_def SetActiveDOFValues_def record_call_def)
  have "\<forall>p\<in>set pre. env_collision w (collision_options ?s') p = None \<and>
                 self_collision w (collision_options ?s') p = None"
    using Cons.prems o by simp
  from Cons.IH[OF this] show ?case
    unfolding step
    by (simp add: SetActiveDOFValues_def record_call_def)
qed


lemma check_loop_ok_iff:
  "fst (check_loop self w checks s) = Inr () \<longleftrightarrow>
     (\<forall>c\<in>set checks. robot_collision_checker self w (collision_options s) (snd c) = None)"
proof (induction self w checks s rule: check_loop.induct)
  case (1 self w s)
  then show ?case by simp
next
  case (2 self w t q checks s)
  show ?case
  proof (cases "robot_collision_checker self w (collision_options s) q")
    case None
    have step: "VerifyCollisionFree self w (SetActiveDOFValues q s) =
        (Inr (), record_call (EvVerifyCollisionFree (collision_options s) q) (SetActiveDOFValues q s))"
      using None by (simp add: VerifyCollisionFree_def SetActiveDOFValues_def record_call_def)
    show ?thesis
      using "2.IH"[OF step[symmetric] refl] None step
      by (simp add: SetActiveDOFValues_def record_call_def)
  next
    case (Some e)
    then show ?thesis
      by (simp add: VerifyCollisionFree_def SetActiveDOFValues_def record_call_def)
  qed
qed

lemma check_loop_error:
  "fst (check_loop self w checks s) = Inl e \<Longrightarrow>
     \<exists>c\<in>set checks. robot_collision_checker self w (collision_options s) (snd c) = Some e"
proof (induction self w checks s rule: check_loop.induct)
  case (1 self w s)
  then show ?case by simp
next
  case (2 self w t q checks s)
  show ?case
  proof (cases "robot_collision_checker self w (collision_options s) q")
    case None
    have step: "VerifyCollisionFree self w (SetActiveDOFValues q s) =
        (Inr (), record_call (EvVerifyCollisionFree (collision_options s) q) (SetActiveDOFValues q s))"
      using None by (simp add: VerifyCollisionFree_def SetActiveDOFValues_def record_call_def)
    show ?thesis
      using "2.IH"[OF step[symmetric] refl] "2.prems" step
      by (simp add: SetActiveDOFValues_def record_call_def)
  next
    case (Some e')
    then show ?thesis
      using "2.prems"
      by (simp add: VerifyCollisionFree_def SetActiveDOFValues_def record_call_def)
  qed
qed

lemma Snap_succeeds_iff:
  "(\<exists>traj. fst (Snap self w goal s) = Inr traj) \<longleftrightarrow>
     within_limits w (dof_values s) \<and> within_limits w goal \<and>
     (\<forall>c\<in>set (GetLinearCollisionCheckPts w
                  \<lparr>waypoints = (if allclose w (dof_values s) goal then [dof_values s]
                                else [dof_values s, goal]),
                   tags = Map.empty\<rparr>).
        robot_collision_checker self w {ActiveDOFs} (snd c) = None)"
proof (cases "within_limits w (dof_values s) \<and> within_limits w goal")
  case True
  then have l: "within_limits w (dof_values s)" "within_limits w goal" by simp_all
  let ?checks = "GetLinearCollisionCheckPts w
                  \<lparr>waypoints = (if allclose w (dof_values s) goal then [dof_values s]
                                else [dof_values s, goal]),
                   tags = Map.empty\<rparr>"
  let ?s4 = "SetCollisionOptions {ActiveDOFs}
                  (s\<lparr>calls := calls s @ [EvCheckJointLimits (dof_values s),
                                          EvInsert 0 (dof_values s), EvCheckJointLimits goal]
                        @ (if allclose w (dof_values s) goal then [] else [EvInsert 1 goal])\<rparr>)"
  have o: "collision_options ?s4 = {ActiveDOFs}"
    by (simp add: SetCollisionOptions_def record_call_def)
  have ok: "fst (check_loop self w ?checks ?s4) = Inr () \<longleftrightarrow>
        (\<forall>c\<in>set ?checks. robot_collision_checker self w {ActiveDOFs} (snd c) = None)"
    unfolding check_loop_ok_iff o ..
  have "(\<exists>traj. fst (Snap self w goal s) = Inr traj) \<longleftrightarrow> fst (check_loop self w ?checks ?s4) = Inr ()"
    unfolding Snap_checked_fst[OF l]
    by (cases "fst (check_loop self w ?checks ?s4)") (simp_all split del: if_split)
  then show ?thesis
    unfolding ok using l by simp
next
  case False
  then show ?thesis
    by (cases "within_limits w (dof_values s)")
       (auto simp: Snap_start_refused Snap_goal_refused)
qed

subsection \<open>Running the planner on the scene\<close>

lemmas run_defs =
  Snap_def PlanToConfiguration_def PlanToEndEffectorPose_def scene_def robot_at_def
  default_planner_def CheckJointLimits_def Insert_def Init_def RaveCreateTrajectory_def
  record_call_def GetLinearCollisionCheckPts_def CollisionOptionsStateSaver_def
  SetCollisionOptions_def VerifyCollisionFree_def SetActiveDOFValues_def
  SimpleRobotCollisionChecker_def SetTrajectoryTags_def FindIKSolution_def
  FindIKSolutions_def CheckCollision_def CheckSelfCollision_def

subsection \<open>The trajectory returned\<close>

text \<open>
  Claim C2. A trajectory that \<open>_Snap\<close> returns has at most two waypoints: the start
  configuration alone when numpy.allclose holds of start and goal, the start
  configuration followed by the goal otherwise.
\<close>

theorem Snap_trajectory_waypoints:
  assumes "fst (Snap self w goal s) = Inr traj"
  shows "waypoints traj = (if allclose w (dof_values s) goal then [dof_values s]
                           else [dof_values s, goal]) \<and>
         length (waypoints traj) \<le> 2"
proof -
  from assms Snap_succeeds_iff[of self w goal s]
  have l: "within_limits w (dof_values s)" "within_limits w goal" by blast+
  from assms show ?thesis
    unfolding Snap_checked_fst[OF l]
    by (auto split: sum.splits)
qed

theorem Snap_trajectory_waypoints_witness:
  "(\<exists>traj. fst (Snap default_planner scene 3 (robot_at 0)) = Inr traj \<and>
           waypoints traj = [0, 3]) \<and>
   (\<exists>traj. fst (Snap default_planner scene 0 (robot_at 0)) = Inr traj \<and>
           waypoints traj = [0])"
proof -
  obtain t1 where run1: "fst (Snap default_planner scene 3 (robot_at 0)) = Inr t1"
    by (simp add: run_defs)
  obtain t2 where run2: "fst (Snap default_planner scene 0 (robot_at 0)) = Inr t2"
    by (simp add: run_defs)
  from Snap_trajectory_waypoints[OF run1] have "waypoints t1 = [0, 3]"
    by (simp add: scene_def robot_at_def)
  moreover from Snap_trajectory_waypoints[OF run2] have "waypoints t2 = [0]"
    by (simp add: scene_def robot_at_def)
  ultimately show ?thesis using run1 run2 by blast
qed

text \<open>
  Claim C5. A trajectory that \<open>_Snap\<close> returns carries the tags SMOOTH,
  DETERMINISTIC_TRAJECTORY and DETERMINISTIC_ENDPOINT, each set to True.
  (\<open>Snap_succeeds_iff\<close> says when \<open>_Snap\<close> returns one: both ends within the
  joint limits and no sampled configuration refused by the collision checker.)
\<close>

theorem Snap_success_tags:
  assumes "fst (Snap self w goal s) = Inr traj"
  shows "tags traj SMOOTH = Some True \<and>
         tags traj DETERMINISTIC_TRAJECTORY = Some True \<and>
         tags traj DETERMINISTIC_ENDPOINT = Some True"
proof -
  from assms Snap_succeeds_iff[of self w goal s]
  have l: "within_limits w (dof_values s)" "within_limits w goal" by blast+
  from assms show ?thesis
    unfolding Snap_checked_fst[OF l]
    by (auto split: sum.splits)
qed

theorem Snap_success_tags_witness:
  "\<exists>traj. fst (Snap default_planner scene 3 (robot_at 0)) = Inr traj \<and>
          tags traj SMOOTH = Some True \<and>
          tags traj DETERMINISTIC_TRAJECTORY = Some True \<and>
          tags traj DETERMINISTIC_ENDPOINT = Some True"
proof -
  obtain traj where run: "fst (Snap default_planner scene 3 (robot_at 0)) = Inr traj"
    by (simp add: run_defs)
  from run Snap_success_tags[OF run] show ?thesis by blast
qed

subsection \<open>The failures of PlanToEndEffectorPose\<close>

text \<open>
  Claim C4. When FindIKSolution with CheckEnvCollisions returns None and
  FindIKSolutions with IgnoreSelfCollisions returns no solution, PlanToEndEffectorPose
  raises the PlanningError "There is no IK solution at the goal pose.".
\<close>

theorem PlanToEndEffectorPose_no_ik_solution:
  assumes "ik_solution w (dof_values s) goal_pose CheckEnvCollisions = None"
      and "ik_solutions w (dof_values s) goal_pose IgnoreSelfCollisions = []"
  shows "fst (PlanToEndEffectorPose self w goal_pose s) =
           Inl (PlanningError ''There is no IK solution at the goal pose.'' True)"
  using assms
  by (simp add: PlanToEndEffectorPose_def FindIKSolution_def FindIKSolutions_def record_call_def)

theorem PlanToEndEffectorPose_no_ik_solution_witness:
  "ik_solution scene (dof_values (robot_at 0)) ''far'' CheckEnvCollisions = None \<and>
   ik_solutions scene (dof_values (robot_at 0)) ''far'' IgnoreSelfCollisions = [] \<and>
   fst (PlanToEndEffectorPose default_planner scene ''far'' (robot_at 0)) =
     Inl (PlanningError ''There is no IK solution at the goal pose.'' True)"
proof -
  have a: "ik_solution scene (dof_values (robot_at 0)) ''far'' CheckEnvCollisions = None"
    by (simp add: scene_def)
  have b: "ik_solutions scene (dof_values (robot_at 0)) ''far'' IgnoreSelfCollisions = []"
    by (simp add: scene_def)
  from a b PlanToEndEffectorPose_no_ik_solution[OF a b, of default_planner]
  show ?thesis by blast
qed

text \<open>
  Claim C3. FindIKSolution with CheckEnvCollisions returns None, FindIKSolutions with
  IgnoreSelfCollisions returns at least one solution, and every solution it returns is
  free of environment collision and in self-collision: PlanToEndEffectorPose raises a
  SelfCollisionPlanningError, built from the report of the first solution.
\<close>

theorem PlanToEndEffectorPose_self_collision:
  assumes "ik_solution w (dof_values s) goal_pose CheckEnvCollisions = None"
      and "ik_solutions w (dof_values s) goal_pose IgnoreSelfCollisions = q # qs"
      and "\<forall>p\<in>set (q # qs). env_collision w (collision_options s) p = None \<and>
                              self_collision w (collision_options s) p \<noteq> None"
  shows "\<exists>report. self_collision w (collision_options s) q = Some report \<and>
           fst (PlanToEndEffectorPose self w goal_pose s) =
             Inl (SelfCollisionPlanningError report True)"
proof -
  from assms(3) obtain report where
    r: "env_collision w (collision_options s) q = None"
       "self_collision w (collision_options s) q = Some report"
    by auto
  then have "fst (PlanToEndEffectorPose self w goal_pose s) =
             Inl (SelfCollisionPlanningError report True)"
    using assms(1,2)
    by (simp add: PlanToEndEffectorPose_def FindIKSolution_def FindIKSolutions_def
        record_call_def CheckCollision_def CheckSelfCollision_def SetActiveDOFValues_def)
  with r show ?thesis by blast
qed

theorem PlanToEndEffectorPose_self_collision_witness:
  "fst (PlanToEndEffectorPose default_planner scene ''back'' (robot_at 0)) =
     Inl (SelfCollisionPlanningError (''arm'', ''torso'') True)"
proof -
  have a: "ik_solution scene (dof_values (robot_at 0)) ''back'' CheckEnvCollisions = None"
    by (simp add: scene_def)
  have b: "ik_solutions scene (dof_values (robot_at 0)) ''back'' IgnoreSelfCollisions = [8, 9]"
    by (simp add: scene_def)
  have c: "\<forall>p\<in>set [8, 9]. env_collision scene (collision_options (robot_at 0)) p = None \<and>
                           self_collision scene (collision_options (robot_at 0)) p \<noteq> None"
    by (simp add: scene_def)
  from PlanToEndEffectorPose_self_collision[OF a b c, of default_planner]
  show ?thesis by (simp add: scene_def)
qed

text \<open>
  Claim C9. In the probe, the environment is asked before the robot. Let \<open>q\<close> be the
  first solution in collision, the solutions before it being free of both kinds of
  collision, and let the environment report a collision at \<open>q\<close>. Then
  PlanToEndEffectorPose raises a CollisionPlanningError with that report, whatever
  CheckSelfCollision would say at \<open>q\<close>: the call sequence ends with the
  environment check at \<open>q\<close>, and no self-collision check of \<open>q\<close> is made.
\<close>

theorem probe_environment_collision_first:
  assumes "ik_solution w (dof_values s) goal_pose CheckEnvCollisions = None"
      and "ik_solutions w (dof_values s) goal_pose IgnoreSelfCollisions = pre @ q # post"
      and "\<forall>p\<in>set pre. env_collision w (collision_options s) p = None \<and>
                        self_collision w (collision_options s) p = None"
      and "env_collision w (collision_options s) q = Some report"
  shows "fst (PlanToEndEffectorPose self w goal_pose s) =
           Inl (CollisionPlanningError report True) \<and>
         calls (snd (PlanToEndEffectorPose self w goal_pose s)) =
           calls s @ [EvFindIKSolution goal_pose CheckEnvCollisions,
                      EvFindIKSolutions goal_pose IgnoreSelfCollisions]
             @ concat (map (\<lambda>p. [EvSetActiveDOFValues p,
                                  EvCheckCollision (collision_options s) p,
                                  EvCheckSelfCollision (collision_options s) p]) pre)
             @ [EvSetActiveDOFValues q, EvCheckCollision (collision_options s) q]"
proof -
  let ?s2 = "s\<lparr>calls := calls s @ [EvFindIKSolution goal_pose CheckEnvCollisions,
                                   EvFindIKSolutions goal_pose IgnoreSelfCollisions]\<rparr>"
  have clear: "\<forall>p\<in>set pre. env_collision w (collision_options ?s2) p = None \<and>
                        self_collision w (collision_options ?s2) p = None"
    using assms(3) by simp
  have p: "PlanToEndEffectorPose self w goal_pose s =
      (case probe_ik_solutions w (pre @ q # post) ?s2 of
         (Inl e, s3) \<Rightarrow> (Inl e, s3)
       | (Inr u, s3) \<Rightarrow>
           (Inl (PlanningError ''There is no IK solution at the goal pose.'' True), s3))"
    using assms(1,2)
    by (simp add: PlanToEndEffectorPose_def FindIKSolution_def FindIKSolutions_def
        record_call_def)
  show ?thesis
    unfolding p probe_clear[OF clear]
    using assms(4)
    by (simp add: CheckCollision_def SetActiveDOFValues_def record_call_def)
qed

theorem probe_environment_collision_first_witness:
  "self_collision scene (collision_options (robot_at 0)) 6 = Some (''arm'', ''torso'') \<and>
   fst (PlanToEndEffectorPose default_planner scene ''table'' (robot_at 0)) =
     Inl (CollisionPlanningError (''arm'', ''table'') True) \<and>
   calls (snd (PlanToEndEffectorPose default_planner scene ''table'' (robot_at 0))) =
     [EvFindIKSolution ''table'' CheckEnvCollisions,
      EvFindIKSolutions ''table'' IgnoreSelfCollisions,
      EvSetActiveDOFValues 6, EvCheckCollision {Contacts} 6]"
proof -
  have a: "ik_solution scene (dof_values (robot_at 0)) ''table'' CheckEnvCollisions = None"
    by (simp add: scene_def)
  have b: "ik_solutions scene (dof_values (robot_at 0)) ''table'' IgnoreSelfCollisions
             = [] @ 6 # [5]"
    by (simp add: scene_def)
  have c: "\<forall>p\<in>set []. env_collision scene (collision_options (robot_at 0)) p = None \<and>
                        self_collision scene (collision_options (robot_at 0)) p = None"
    by simp
  have d: "env_collision scene (collision_options (robot_at 0)) 6 = Some (''arm'', ''table'')"
    by (simp add: scene_def)
  have e: "self_collision scene (collision_options (robot_at 0)) 6 = Some (''arm'', ''torso'')"
    by (simp add: scene_def)
  from probe_environment_collision_first[OF a b c d, of default_planner] e
  show ?thesis by (simp add: robot_at_def)
qed

subsection \<open>The order of the calls in \<open>_Snap\<close>\<close>

lemma Snap_checked_calls:
  assumes "within_limits w (dof_values s)" and "within_limits w goal"
  shows "\<exists>loop. calls (snd (Snap self w goal s)) =
           calls s @ [EvCheckJointLimits (dof_values s), EvInsert 0 (dof_values s),
                      EvCheckJointLimits goal]
             @ (if allclose w (dof_values s) goal then [] else [EvInsert 1 goal])
             @ [EvSetCollisionOptions {ActiveDOFs}] @ loop
             @ [EvSetCollisionOptions (collision_options s)] \<and>
         (\<forall>ev\<in>set loop. (\<exists>q. ev = EvSetActiveDOFValues q) \<or>
                          (\<exists>q. ev = EvVerifyCollisionFree {ActiveDOFs} q))"
proof -
  let ?checks = "GetLinearCollisionCheckPts w
                  \<lparr>waypoints = (if allclose w (dof_values s) goal then [dof_values s]
                                else [dof_values s, goal]),
                   tags = Map.empty\<rparr>"
  let ?s4 = "SetCollisionOptions {ActiveDOFs}
                  (s\<lparr>calls := calls s @ [EvCheckJointLimits (dof_values s),
                                          EvInsert 0 (dof_values s), EvCheckJointLimits goal]
                        @ (if allclose w (dof_values s) goal then [] else [EvInsert 1 goal])\<rparr>)"
  have o: "collision_options ?s4 = {ActiveDOFs}"
    by (simp add: SetCollisionOptions_def record_call_def)
  from check_loop_calls[of self w ?checks ?s4] obtain loop where
    loop: "calls (snd (check_loop self w ?checks ?s4)) = calls ?s4 @ loop"
      "\<forall>ev\<in>set loop. (\<exists>q. ev = EvSetActiveDOFValues q) \<or>
                       (\<exists>q. ev = EvVerifyCollisionFree {ActiveDOFs} q)"
    unfolding o by blast
  have c4: "calls ?s4 = calls s @ [EvCheckJointLimits (dof_values s), EvInsert 0 (dof_values s),
                      EvCheckJointLimits goal]
             @ (if allclose w (dof_values s) goal then [] else [EvInsert 1 goal])
             @ [EvSetCollisionOptions {ActiveDOFs}]"
    by (simp add: SetCollisionOptions_def record_call_def)
  have "calls (snd (Snap self w goal s)) =
          calls (snd (check_loop self w ?checks ?s4)) @ [EvSetCollisionOptions (collision_options s)]"
    unfolding Snap_checked_snd[OF assms]
    by (simp add: SetCollisionOptions_def record_call_def)
  then have "calls (snd (Snap self w goal s)) =
           calls s @ [EvCheckJointLimits (dof_values s), EvInsert 0 (dof_values s),
                      EvCheckJointLimits goal]
             @ (if allclose w (dof_values s) goal then [] else [EvInsert 1 goal])
             @ [EvSetCollisionOptions {ActiveDOFs}] @ loop
             @ [EvSetCollisionOptions (collision_options s)]"
    unfolding loop(1) c4 by simp
  with loop(2) show ?thesis by blast
qed


text \<open>
  Claim C1. A goal configuration outside the joint limits makes \<open>_Snap\<close>, and so
  PlanToConfiguration, raise a JointLimitError (for the start configuration when that
  one is outside the limits too, for the goal otherwise). The calls made are the
  validation of the start, the insertion of the start waypoint and the validation of
  the goal, or the validation of the start alone: no collision check, and no
  insertion of the goal waypoint. In every call whose start configuration passes,
  these three calls come first, in this order, whatever follows: each configuration
  is validated before its waypoint is inserted and before the check loop.
\<close>

theorem Snap_joint_limits_before_collision_checks:
  "(\<not> within_limits w goal \<longrightarrow>
      PlanToConfiguration self w goal s = Snap self w goal s \<and>
      fst (Snap self w goal s) =
        Inl (JointLimitError (if within_limits w (dof_values s) then goal else dof_values s) True) \<and>
      calls (snd (Snap self w goal s)) =
        calls s @ (if within_limits w (dof_values s)
                   then [EvCheckJointLimits (dof_values s), EvInsert 0 (dof_values s),
                         EvCheckJointLimits goal]
                   else [EvCheckJointLimits (dof_values s)]) \<and>
      filter is_collision_check (drop (length (calls s)) (calls (snd (Snap self w goal s)))) = []) \<and>
   (within_limits w (dof_values s) \<longrightarrow>
      (\<exists>rest. calls (snd (Snap self w goal s)) =
         calls s @ [EvCheckJointLimits (dof_values s), EvInsert 0 (dof_values s),
                    EvCheckJointLimits goal] @ rest))"
proof (intro conjI impI)
  assume g: "\<not> within_limits w goal"
  show "PlanToConfiguration self w goal s = Snap self w goal s"
    by (simp add: PlanToConfiguration_def)
  show "fst (Snap self w goal s) =
        Inl (JointLimitError (if within_limits w (dof_values s) then goal else dof_values s) True)"
    using g by (cases "within_limits w (dof_values s)")
      (simp_all add: Snap_start_refused Snap_goal_refused)
  show c: "calls (snd (Snap self w goal s)) =
        calls s @ (if within_limits w (dof_values s)
                   then [EvCheckJointLimits (dof_values s), EvInsert 0 (dof_values s),
                         EvCheckJointLimits goal]
                   else [EvCheckJointLimits (dof_values s)])"
    using g by (cases "within_limits w (dof_values s)")
      (simp_all add: Snap_start_refused Snap_goal_refused)
  show "filter is_collision_check (drop (length (calls s)) (calls (snd (Snap self w goal s)))) = []"
    unfolding c by simp
next
  assume st: "within_limits w (dof_values s)"
  show "\<exists>rest. calls (snd (Snap self w goal s)) =
         calls s @ [EvCheckJointLimits (dof_values s), EvInsert 0 (dof_values s),
                    EvCheckJointLimits goal] @ rest"
  proof (cases "within_limits w goal")
    case False
    with st show ?thesis by (simp add: Snap_goal_refused)
  next
    case True
    from Snap_checked_calls[OF st True, of self] show ?thesis by auto
  qed
qed

theorem Snap_joint_limits_before_collision_checks_witness:
  "\<not> within_limits scene 11 \<and>
   fst (PlanToConfiguration default_planner scene 11 (robot_at 0)) =
     Inl (JointLimitError 11 True) \<and>
   calls (snd (PlanToConfiguration default_planner scene 11 (robot_at 0))) =
     [EvCheckJointLimits 0, EvInsert 0 0, EvCheckJointLimits 11]"
proof -
  have g: "\<not> within_limits scene 11" by (simp add: scene_def)
  from Snap_joint_limits_before_collision_checks[of scene 11 default_planner "robot_at 0"] g
  show ?thesis by (simp add: scene_def robot_at_def)
qed



text \<open>
  Claim C10. With both ends within the joint limits and numpy.allclose true of start
  and goal, the one-waypoint trajectory is still checked: \<open>_Snap\<close> sets the robot to
  the start configuration and calls VerifyCollisionFree there, under ActiveDOFs. With
  the default checker the call fails with a CollisionPlanningError when the
  environment reports a collision at the start, with a SelfCollisionPlanningError when
  only the robot does, and returns the trajectory otherwise.
\<close>

theorem Snap_checks_start_when_goal_is_start:
  assumes "within_limits w (dof_values s)" and "within_limits w goal"
      and "allclose w (dof_values s) goal"
  shows "calls (snd (Snap default_planner w goal s)) =
           calls s @ [EvCheckJointLimits (dof_values s), EvInsert 0 (dof_values s),
                      EvCheckJointLimits goal, EvSetCollisionOptions {ActiveDOFs},
                      EvSetActiveDOFValues (dof_values s),
                      EvVerifyCollisionFree {ActiveDOFs} (dof_values s),
                      EvSetCollisionOptions (collision_options s)] \<and>
         fst (Snap default_planner w goal s) =
           (case env_collision w {ActiveDOFs} (dof_values s) of
              Some report \<Rightarrow> Inl (CollisionPlanningError report True)
            | None \<Rightarrow>
               (case self_collision w {ActiveDOFs} (dof_values s) of
                  Some report \<Rightarrow> Inl (SelfCollisionPlanningError report True)
                | None \<Rightarrow>
                    Inr \<lparr>waypoints = [dof_values s],
                         tags = map_of [(SMOOTH, True), (DETERMINISTIC_TRAJECTORY, True),
                                        (DETERMINISTIC_ENDPOINT, True)]\<rparr>))"
proof (rule conjI)
  show "calls (snd (Snap default_planner w goal s)) =
           calls s @ [EvCheckJointLimits (dof_values s), EvInsert 0 (dof_values s),
                      EvCheckJointLimits goal, EvSetCollisionOptions {ActiveDOFs},
                      EvSetActiveDOFValues (dof_values s),
                      EvVerifyCollisionFree {ActiveDOFs} (dof_values s),
                      EvSetCollisionOptions (collision_options s)]"
    unfolding Snap_checked_snd[OF assms(1,2)]
    using assms(3)
    by (simp add: GetLinearCollisionCheckPts_def SetCollisionOptions_def record_call_def
        VerifyCollisionFree_def SetActiveDOFValues_def split: option.splits)
next
  show "fst (Snap default_planner w goal s) =
           (case env_collision w {ActiveDOFs} (dof_values s) of
              Some report \<Rightarrow> Inl (CollisionPlanningError report True)
            | None \<Rightarrow>
               (case self_collision w {ActiveDOFs} (dof_values s) of
                  Some report \<Rightarrow> Inl (SelfCollisionPlanningError report True)
                | None \<Rightarrow>
                    Inr \<lparr>waypoints = [dof_values s],
                         tags = map_of [(SMOOTH, True), (DETERMINISTIC_TRAJECTORY, True),
                                        (DETERMINISTIC_ENDPOINT, True)]\<rparr>))"
    unfolding Snap_checked_fst[OF assms(1,2)]
    using assms(3)
    by (simp add: GetLinearCollisionCheckPts_def SetCollisionOptions_def record_call_def
        VerifyCollisionFree_def SetActiveDOFValues_def default_planner_def
        SimpleRobotCollisionChecker_def split: option.splits)
qed

theorem Snap_checks_start_when_goal_is_start_witness:
  "allclose scene (dof_values (robot_at 5)) 5 \<and>
   fst (Snap default_planner scene 5 (robot_at 5)) =
     Inl (CollisionPlanningError (''arm'', ''table'') True) \<and>
   calls (snd (Snap default_planner scene 5 (robot_at 5))) =
     [EvCheckJointLimits 5, EvInsert 0 5, EvCheckJointLimits 5,
      EvSetCollisionOptions {ActiveDOFs}, EvSetActiveDOFValues 5,
      EvVerifyCollisionFree {ActiveDOFs} 5, EvSetCollisionOptions {Contacts}]"
proof -
  have a: "within_limits scene (dof_values (robot_at 5))" by (simp add: scene_def robot_at_def)
  have b: "within_limits scene 5" by (simp add: scene_def)
  have c: "allclose scene (dof_values (robot_at 5)) 5" by (simp add: scene_def robot_at_def)
  from Snap_checks_start_when_goal_is_start[OF a b c] c
  show ?thesis by (simp add: scene_def robot_at_def)
qed

subsection \<open>The calls made before do not matter\<close>

text \<open>
  The outcome of an operation is the same in two states that agree on the robot's
  configuration and on the collision checker's options: the list of calls is written,
  never read (see also \<open>Snap_fst_cong\<close> and \<open>probe_fst_cong\<close>).
\<close>

lemma PlanToEndEffectorPose_fst_cong:
  assumes "dof_values s1 = dof_values s2" and "collision_options s1 = collision_options s2"
  shows "fst (PlanToEndEffectorPose self w goal_pose s1) =
         fst (PlanToEndEffectorPose self w goal_pose s2)"
proof (cases "ik_solution w (dof_values s2) goal_pose CheckEnvCollisions")
  case None
  let ?evs = "[EvFindIKSolution goal_pose CheckEnvCollisions,
               EvFindIKSolutions goal_pose IgnoreSelfCollisions]"
  let ?sols = "ik_solutions w (dof_values s2) goal_pose IgnoreSelfCollisions"
  have p: "fst (probe_ik_solutions w ?sols (s1\<lparr>calls := calls s1 @ ?evs\<rparr>)) =
           fst (probe_ik_solutions w ?sols (s2\<lparr>calls := calls s2 @ ?evs\<rparr>))"
    by (rule probe_fst_cong) (simp_all add: assms)
  have e: "\<And>s. dof_values s = dof_values s2 \<Longrightarrow>
      fst (PlanToEndEffectorPose self w goal_pose s) =
        (case fst (probe_ik_solutions w ?sols (s\<lparr>calls := calls s @ ?evs\<rparr>)) of
           Inl e \<Rightarrow> Inl e
         | Inr u \<Rightarrow> Inl (PlanningError ''There is no IK solution at the goal pose.'' True))"
    using None
    by (simp add: PlanToEndEffectorPose_def FindIKSolution_def FindIKSolutions_def
        record_call_def split: prod.splits sum.splits)
  show ?thesis
    unfolding e[OF assms(1)] e[OF refl] p ..
next
  case (Some sol)
  have e: "\<And>s. dof_values s = dof_values s2 \<Longrightarrow>
      fst (PlanToEndEffectorPose self w goal_pose s) =
      fst (Snap self w sol (s\<lparr>calls := calls s @ [EvFindIKSolution goal_pose CheckEnvCollisions]\<rparr>))"
    using Some
    by (simp add: PlanToEndEffectorPose_def FindIKSolution_def record_call_def)
  show ?thesis
    unfolding e[OF assms(1)] e[OF refl]
    by (rule Snap_fst_cong) (simp_all add: assms)
qed

subsection \<open>The flag of the failures\<close>

lemma SimpleRobotCollisionChecker_deterministic:
  "SimpleRobotCollisionChecker w opts q = Some e \<Longrightarrow> deterministic e = Some True"
  by (auto simp: SimpleRobotCollisionChecker_def split: option.splits)

lemma probe_error_deterministic:
  "fst (probe_ik_solutions w qs s) = Inl e \<Longrightarrow> deterministic e = Some True"
proof (induction w qs s rule: probe_ik_solutions.induct)
  case (1 w s)
  then show ?case by simp
next
  case (2 w q qs s)
  then show ?case
    by (auto simp: CheckCollision_def CheckSelfCollision_def split: option.splits)
qed

lemma Snap_error:
  assumes "fst (Snap self w goal s) = Inl e"
  shows "e = JointLimitError (dof_values s) True \<or> e = JointLimitError goal True \<or>
         (\<exists>q. robot_collision_checker self w {ActiveDOFs} q = Some e)"
proof (cases "within_limits w (dof_values s)")
  case False
  with assms show ?thesis by (simp add: Snap_start_refused)
next
  case True
  show ?thesis
  proof (cases "within_limits w goal")
    case False
    with True assms show ?thesis by (simp add: Snap_goal_refused)
  next
    case g: True
    let ?checks = "GetLinearCollisionCheckPts w
                  \<lparr>waypoints = (if allclose w (dof_values s) goal then [dof_values s]
                                else [dof_values s, goal]),
                   tags = Map.empty\<rparr>"
    let ?s4 = "SetCollisionOptions {ActiveDOFs}
                  (s\<lparr>calls := calls s @ [EvCheckJointLimits (dof_values s),
                                          EvInsert 0 (dof_values s), EvCheckJointLimits goal]
                        @ (if allclose w (dof_values s) goal then [] else [EvInsert 1 goal])\<rparr>)"
    have o: "collision_options ?s4 = {ActiveDOFs}"
      by (simp add: SetCollisionOptions_def record_call_def)
    from assms have "fst (check_loop self w ?checks ?s4) = Inl e"
      unfolding Snap_checked_fst[OF True g]
      by (cases "fst (check_loop self w ?checks ?s4)") (simp_all split del: if_split)
    from check_loop_error[OF this] show ?thesis
      unfolding o by blast
  qed
qed

text \<open>
  Claim C6, as amended. An exception that PlanToConfiguration or PlanToEndEffectorPose
  raises carries \<open>deterministic = True\<close>, unless it is the exception that the
  planner's collision checker raised in the check loop of \<open>_Snap\<close>: snap.py asks
  for the JointLimitErrors with \<open>deterministic=True\<close> and raises the errors of the
  probe and the no-IK PlanningError with it, but passes no flag to
  \<open>robot_checker.VerifyCollisionFree()\<close>, whose exception goes to the caller as
  the checker made it. When FindIKSolution returns None, \<open>_Snap\<close> is not run and
  every exception of PlanToEndEffectorPose carries \<open>deterministic = True\<close>.
\<close>

theorem planning_failures_flag:
  "(fst (PlanToConfiguration self w goal s) = Inl e \<longrightarrow>
      deterministic e = Some True \<or>
      (\<exists>q. robot_collision_checker self w {ActiveDOFs} q = Some e)) \<and>
   (fst (PlanToEndEffectorPose self w goal_pose s) = Inl e \<longrightarrow>
      deterministic e = Some True \<or>
      (ik_solution w (dof_values s) goal_pose CheckEnvCollisions \<noteq> None \<and>
       (\<exists>q. robot_collision_checker self w {ActiveDOFs} q = Some e)))"
proof (intro conjI impI)
  have snap: "\<And>g s'. fst (Snap self w g s') = Inl e \<Longrightarrow>
      deterministic e = Some True \<or>
      (\<exists>q. robot_collision_checker self w {ActiveDOFs} q = Some e)"
  proof -
    fix g s'
    assume "fst (Snap self w g s') = Inl e"
    from Snap_error[OF this] show "deterministic e = Some True \<or>
      (\<exists>q. robot_collision_checker self w {ActiveDOFs} q = Some e)"
      by auto
  qed
  {
    assume "fst (PlanToConfiguration self w goal s) = Inl e"
    then show "deterministic e = Some True \<or>
      (\<exists>q. robot_collision_checker self w {ActiveDOFs} q = Some e)"
      by (simp add: PlanToConfiguration_def snap)
  next
    assume a: "fst (PlanToEndEffectorPose self w goal_pose s) = Inl e"
    show "deterministic e = Some True \<or>
      (ik_solution w (dof_values s) goal_pose CheckEnvCollisions \<noteq> None \<and>
       (\<exists>q. robot_collision_checker self w {ActiveDOFs} q = Some e))"
    proof (cases "ik_solution w (dof_values s) goal_pose CheckEnvCollisions")
      case None
      let ?s2 = "s\<lparr>calls := calls s @ [EvFindIKSolution goal_pose CheckEnvCollisions,
                                   EvFindIKSolutions goal_pose IgnoreSelfCollisions]\<rparr>"
      let ?sols = "ik_solutions w (dof_values s) goal_pose IgnoreSelfCollisions"
      have p: "fst (PlanToEndEffectorPose self w goal_pose s) =
          (case fst (probe_ik_solutions w ?sols ?s2) of
             Inl e \<Rightarrow> Inl e
           | Inr u \<Rightarrow> Inl (PlanningError ''There is no IK solution at the goal pose.'' True))"
        using None
        by (simp add: PlanToEndEffectorPose_def FindIKSolution_def FindIKSolutions_def
            record_call_def split: prod.splits sum.splits)
      have "deterministic e = Some True"
      proof (cases "fst (probe_ik_solutions w ?sols ?s2)")
        case (Inl e')
        with a p have "e' = e" by simp
        with Inl probe_error_deterministic show ?thesis by blast
      next
        case (Inr u)
        with a p show ?thesis by auto
      qed
      then show ?thesis ..
    next
      case (Some sol)
      from a Some have "fst (Snap self w sol
          (s\<lparr>calls := calls s @ [EvFindIKSolution goal_pose CheckEnvCollisions]\<rparr>)) = Inl e"
        by (simp add: PlanToEndEffectorPose_def FindIKSolution_def record_call_def)
      from snap[OF this] Some show ?thesis by auto
    qed
  }
qed

theorem planning_failures_flag_witness:
  "(\<exists>e. fst (PlanToConfiguration default_planner scene 11 (robot_at 0)) = Inl e \<and>
        deterministic e = Some True) \<and>
   (\<exists>e. fst (PlanToEndEffectorPose env_only_planner scene ''table'' (robot_at 0)) = Inl e \<and>
        deterministic e = Some True)"
proof -
  obtain e1 where r1: "fst (PlanToConfiguration default_planner scene 11 (robot_at 0)) = Inl e1"
    by (simp add: run_defs)
  obtain e2 where
    r2: "fst (PlanToEndEffectorPose env_only_planner scene ''table'' (robot_at 0)) = Inl e2"
    by (simp add: run_defs)
  have i: "ik_solution scene (dof_values (robot_at 0)) ''table'' CheckEnvCollisions = None"
    by (simp add: scene_def)
  from planning_failures_flag[of default_planner scene 11 "robot_at 0" e1] r1
  have "deterministic e1 = Some True"
    by (auto simp: default_planner_def dest: SimpleRobotCollisionChecker_deterministic)
  moreover
  from planning_failures_flag[of env_only_planner scene _ "robot_at 0" e2 "''table''"] r2 i
  have "deterministic e2 = Some True"
    by simp
  ultimately show ?thesis using r1 r2 by blast
qed

theorem planning_failures_flag_counterexample:
  "fst (PlanToConfiguration env_only_planner scene 5 (robot_at 0)) =
     Inl (CollisionPlanningError (''arm'', ''table'') False) \<and>
   deterministic (CollisionPlanningError (''arm'', ''table'') False :: int error) \<noteq> Some True"
  by (simp add: run_defs env_only_planner_def env_only_checker_def)

end
